theory Spec2Isabelle
  imports Main "HOL-Library.Word"
begin

section \<open>ScholaChain: governance and certificate registries\<close>

text \<open>
  A shallow embedding of the two Solidity contracts of the repository,
  \<^verbatim>\<open>ScholaChainGovernance\<close> and \<^verbatim>\<open>ScholaChain\<close> (Solidity 0.8.28).

  \<^item> \<^verbatim>\<open>address\<close> is a 160-bit word and \<^verbatim>\<open>uint256\<close> a 256-bit word.
  \<^item> A Solidity \<^verbatim>\<open>string\<close> is a byte sequence, here a list of 8-bit characters.
  \<^item> A \<^verbatim>\<open>mapping\<close> is a total function whose default is the zero value.
  \<^item> A failed \<^verbatim>\<open>require\<close> is \<open>Inl (Revert msg)\<close> with the message of the source;
    arithmetic of Solidity 0.8 is checked, so \<^verbatim>\<open>++\<close> and \<^verbatim>\<open>--\<close> outside the range of
    \<^verbatim>\<open>uint256\<close> are \<open>Inl Panic\<close>. A reverted call leaves the storage as it was.
  \<^item> \<^verbatim>\<open>msg.sender\<close> and \<^verbatim>\<open>block.timestamp\<close> are the first two arguments of every
    transaction.
  \<^item> Events do not change storage and are left out.
\<close>

type_synonym address = "160 word"
type_synonym uint256 = "256 word"

datatype error = Revert string | Panic

definition checked_inc :: "uint256 \<Rightarrow> error + uint256" where
  "checked_inc x = (if x = - 1 then Inl Panic else Inr (x + 1))"

definition checked_dec :: "uint256 \<Rightarrow> error + uint256" where
  "checked_dec x = (if x = 0 then Inl Panic else Inr (x - 1))"

subsection \<open>ScholaChainGovernance\<close>

datatype Role = NONE | ISSUER | SUPER_ADMIN

record Institution =
  name :: string
  description :: string
  website :: string
  isActive :: bool
  registeredAt :: uint256
  role :: Role

record gov_state =
  institutions :: "address \<Rightarrow> Institution"
  authorizedIssuers :: "address \<Rightarrow> bool"
  superAdmin :: address
  totalInstitutions :: uint256
  activeIssuers :: uint256

text \<open>The zero value of the struct, which every unwritten slot of the mapping holds.\<close>

definition zero_Institution :: Institution where
  "zero_Institution =
     \<lparr>name = [], description = [], website = [], isActive = False,
      registeredAt = 0, role = NONE\<rparr>"

text \<open>Storage of the contract before its constructor has run.\<close>

definition gov_empty :: gov_state where
  "gov_empty =
     \<lparr>institutions = (\<lambda>_. zero_Institution), authorizedIssuers = (\<lambda>_. False),
      superAdmin = 0, totalInstitutions = 0, activeIssuers = 0\<rparr>"

definition gov_constructor :: "uint256 \<Rightarrow> address \<Rightarrow> error + gov_state" where
  "gov_constructor now ministryAddress =
     (if ministryAddress = 0 then Inl (Revert ''ScholaChain: Invalid ministry address'')
      else Inr (gov_empty
        \<lparr>institutions := (institutions gov_empty)(ministryAddress :=
            \<lparr>name = ''Ministry of Education'',
             description = ''Governing body for educational certification'',
             website = ''https://education.gov'',
             isActive = True, registeredAt = now, role = SUPER_ADMIN\<rparr>),
         superAdmin := ministryAddress,
         totalInstitutions := 1\<rparr>))"

definition registerInstitution ::
  "address \<Rightarrow> uint256 \<Rightarrow> address \<Rightarrow> string \<Rightarrow> string \<Rightarrow> string \<Rightarrow> Role \<Rightarrow> gov_state
     \<Rightarrow> error + gov_state" where
  "registerInstitution sender now institutionAddress nm descr web r s =
     (if sender \<noteq> superAdmin s then Inl (Revert ''ScholaChain: Only super admin'')
      else if institutionAddress = 0 then Inl (Revert ''ScholaChain: Invalid address'')
      else if \<not> length nm > 0 then Inl (Revert ''ScholaChain: Name required'')
      else if role (institutions s institutionAddress) \<noteq> NONE
        then Inl (Revert ''ScholaChain: Already registered'')
      else if r = NONE then Inl (Revert ''ScholaChain: Invalid role'')
      else case checked_inc (totalInstitutions s) of
        Inl e \<Rightarrow> Inl e
      | Inr cnt \<Rightarrow>
          let s1 = s\<lparr>institutions := (institutions s)(institutionAddress :=
                        \<lparr>name = nm, description = descr, website = web,
                         isActive = True, registeredAt = now, role = r\<rparr>),
                     totalInstitutions := cnt\<rparr>
          in if r = ISSUER
             then (case checked_inc (activeIssuers s1) of
                     Inl e \<Rightarrow> Inl e
                   | Inr n \<Rightarrow> Inr (s1\<lparr>authorizedIssuers :=
                                        (authorizedIssuers s1)(institutionAddress := True),
                                      activeIssuers := n\<rparr>))
             else Inr s1)"

definition revokeInstitution ::
  "address \<Rightarrow> uint256 \<Rightarrow> address \<Rightarrow> string \<Rightarrow> gov_state \<Rightarrow> error + gov_state" where
  "revokeInstitution sender now institutionAddress reason s =
     (if sender \<noteq> superAdmin s then Inl (Revert ''ScholaChain: Only super admin'')
      else if institutionAddress = 0 then Inl (Revert ''ScholaChain: Invalid address'')
      else if role (institutions s institutionAddress) = NONE
        then Inl (Revert ''ScholaChain: Institution not registered'')
      else if \<not> isActive (institutions s institutionAddress)
        then Inl (Revert ''ScholaChain: Institution already inactive'')
      else if role (institutions s institutionAddress) \<noteq> ISSUER
        then Inl (Revert ''ScholaChain: Can only revoke issuers'')
      else case checked_dec (activeIssuers s) of
        Inl e \<Rightarrow> Inl e
      | Inr n \<Rightarrow>
          Inr (s\<lparr>institutions := (institutions s)(institutionAddress :=
                    (institutions s institutionAddress)\<lparr>isActive := False\<rparr>),
                 authorizedIssuers := (authorizedIssuers s)(institutionAddress := False),
                 activeIssuers := n\<rparr>))"

definition reactivateInstitution ::
  "address \<Rightarrow> uint256 \<Rightarrow> address \<Rightarrow> gov_state \<Rightarrow> error + gov_state" where
  "reactivateInstitution sender now institutionAddress s =
     (if sender \<noteq> superAdmin s then Inl (Revert ''ScholaChain: Only super admin'')
      else if institutionAddress = 0 then Inl (Revert ''ScholaChain: Invalid address'')
      else if role (institutions s institutionAddress) = NONE
        then Inl (Revert ''ScholaChain: Institution not registered'')
      else if isActive (institutions s institutionAddress)
        then Inl (Revert ''ScholaChain: Institution already active'')
      else if role (institutions s institutionAddress) \<noteq> ISSUER
        then Inl (Revert ''ScholaChain: Can only reactivate issuers'')
      else case checked_inc (activeIssuers s) of
        Inl e \<Rightarrow> Inl e
      | Inr n \<Rightarrow>
          Inr (s\<lparr>institutions := (institutions s)(institutionAddress :=
                    (institutions s institutionAddress)\<lparr>isActive := True\<rparr>),
                 authorizedIssuers := (authorizedIssuers s)(institutionAddress := True),
                 activeIssuers := n\<rparr>))"

definition updateInstitutionRole ::
  "address \<Rightarrow> uint256 \<Rightarrow> address \<Rightarrow> Role \<Rightarrow> gov_state \<Rightarrow> error + gov_state" where
  "updateInstitutionRole sender now institutionAddress newRole s =
     (if sender \<noteq> superAdmin s then Inl (Revert ''ScholaChain: Only super admin'')
      else if institutionAddress = 0 then Inl (Revert ''ScholaChain: Invalid address'')
      else if role (institutions s institutionAddress) = NONE
        then Inl (Revert ''ScholaChain: Not registered'')
      else if newRole = NONE then Inl (Revert ''ScholaChain: Invalid role'')
      else
        let previousRole = role (institutions s institutionAddress);
            s1 = s\<lparr>institutions := (institutions s)(institutionAddress :=
                      (institutions s institutionAddress)\<lparr>role := newRole\<rparr>)\<rparr>
        in if previousRole = ISSUER \<and> newRole \<noteq> ISSUER then
             (let s2 = s1\<lparr>authorizedIssuers :=
                            (authorizedIssuers s1)(institutionAddress := False)\<rparr>
              in if isActive (institutions s2 institutionAddress)
                 then (case checked_dec (activeIssuers s2) of
                         Inl e \<Rightarrow> Inl e
                       | Inr n \<Rightarrow> Inr (s2\<lparr>activeIssuers := n\<rparr>))
                 else Inr s2)
           else if previousRole \<noteq> ISSUER \<and> newRole = ISSUER then
             (let s2 = s1\<lparr>authorizedIssuers :=
                            (authorizedIssuers s1)(institutionAddress := True)\<rparr>
              in if isActive (institutions s2 institutionAddress)
                 then (case checked_inc (activeIssuers s2) of
                         Inl e \<Rightarrow> Inl e
                       | Inr n \<Rightarrow> Inr (s2\<lparr>activeIssuers := n\<rparr>))
                 else Inr s2)
           else Inr s1)"

definition setInstitutionStatus ::
  "address \<Rightarrow> uint256 \<Rightarrow> address \<Rightarrow> bool \<Rightarrow> gov_state \<Rightarrow> error + gov_state" where
  "setInstitutionStatus sender now institutionAddress active s =
     (if sender \<noteq> superAdmin s then Inl (Revert ''ScholaChain: Only super admin'')
      else if institutionAddress = 0 then Inl (Revert ''ScholaChain: Invalid address'')
      else if role (institutions s institutionAddress) = NONE
        then Inl (Revert ''ScholaChain: Not registered'')
      else if isActive (institutions s institutionAddress) = active
        then Inl (Revert ''ScholaChain: Status unchanged'')
      else
        let s1 = s\<lparr>institutions := (institutions s)(institutionAddress :=
                      (institutions s institutionAddress)\<lparr>isActive := active\<rparr>)\<rparr>
        in if role (institutions s1 institutionAddress) = ISSUER then
             (if active
              then (case checked_inc (activeIssuers s1) of
                      Inl e \<Rightarrow> Inl e
                    | Inr n \<Rightarrow> Inr (s1\<lparr>authorizedIssuers :=
                                         (authorizedIssuers s1)(institutionAddress := True),
                                       activeIssuers := n\<rparr>))
              else (case checked_dec (activeIssuers s1) of
                      Inl e \<Rightarrow> Inl e
                    | Inr n \<Rightarrow> Inr (s1\<lparr>authorizedIssuers :=
                                         (authorizedIssuers s1)(institutionAddress := False),
                                       activeIssuers := n\<rparr>)))
           else Inr s1)"

text \<open>
  The four assignments of \<^verbatim>\<open>transferSuperAdmin\<close> run in the order of the source; the
  counter \<^verbatim>\<open>activeIssuers\<close> is not written.
\<close>

definition transferSuperAdmin ::
  "address \<Rightarrow> uint256 \<Rightarrow> address \<Rightarrow> gov_state \<Rightarrow> error + gov_state" where
  "transferSuperAdmin sender now newSuperAdmin s =
     (if sender \<noteq> superAdmin s then Inl (Revert ''ScholaChain: Only super admin'')
      else if newSuperAdmin = 0 then Inl (Revert ''ScholaChain: Invalid address'')
      else if role (institutions s newSuperAdmin) = NONE
        then Inl (Revert ''ScholaChain: Not registered'')
      else if newSuperAdmin = superAdmin s then Inl (Revert ''ScholaChain: Same admin'')
      else
        let s1 = s\<lparr>institutions := (institutions s)(superAdmin s :=
                      (institutions s (superAdmin s))\<lparr>role := ISSUER\<rparr>)\<rparr>;
            s2 = s1\<lparr>institutions := (institutions s1)(newSuperAdmin :=
                      (institutions s1 newSuperAdmin)\<lparr>role := SUPER_ADMIN\<rparr>)\<rparr>;
            s3 = s2\<lparr>authorizedIssuers := (authorizedIssuers s2)(superAdmin s2 := True)\<rparr>;
            s4 = s3\<lparr>authorizedIssuers := (authorizedIssuers s3)(newSuperAdmin := False)\<rparr>
        in Inr (s4\<lparr>superAdmin := newSuperAdmin\<rparr>))"

text \<open>View functions.\<close>

definition canIssueCertificates :: "gov_state \<Rightarrow> address \<Rightarrow> bool" where
  "canIssueCertificates s issuer \<longleftrightarrow>
     authorizedIssuers s issuer \<and> isActive (institutions s issuer)"

definition getInstitutionRole :: "gov_state \<Rightarrow> address \<Rightarrow> Role" where
  "getInstitutionRole s a = role (institutions s a)"

definition isInstitutionActive :: "gov_state \<Rightarrow> address \<Rightarrow> bool" where
  "isInstitutionActive s a = isActive (institutions s a)"

definition isSuperAdmin :: "gov_state \<Rightarrow> address \<Rightarrow> bool" where
  "isSuperAdmin s a \<longleftrightarrow> role (institutions s a) = SUPER_ADMIN \<and> a = superAdmin s"

definition getActiveIssuersCount :: "gov_state \<Rightarrow> uint256" where
  "getActiveIssuersCount s = activeIssuers s"

definition isInstitutionRevoked :: "gov_state \<Rightarrow> address \<Rightarrow> bool" where
  "isInstitutionRevoked s a \<longleftrightarrow>
     role (institutions s a) \<noteq> NONE \<and> \<not> isActive (institutions s a)"

text \<open>A transaction to the governance contract, and its execution.\<close>

datatype gov_call =
    RegisterInstitution address string string string Role
  | RevokeInstitution address string
  | ReactivateInstitution address
  | UpdateInstitutionRole address Role
  | SetInstitutionStatus address bool
  | TransferSuperAdmin address

fun gov_exec :: "address \<Rightarrow> uint256 \<Rightarrow> gov_call \<Rightarrow> gov_state \<Rightarrow> error + gov_state" where
  "gov_exec sender now (RegisterInstitution a nm d w r) s =
     registerInstitution sender now a nm d w r s"
| "gov_exec sender now (RevokeInstitution a reason) s = revokeInstitution sender now a reason s"
| "gov_exec sender now (ReactivateInstitution a) s = reactivateInstitution sender now a s"
| "gov_exec sender now (UpdateInstitutionRole a r) s = updateInstitutionRole sender now a r s"
| "gov_exec sender now (SetInstitutionStatus a b) s = setInstitutionStatus sender now a b s"
| "gov_exec sender now (TransferSuperAdmin a) s = transferSuperAdmin sender now a s"

text \<open>The storage after a transaction: a revert rolls every write back.\<close>

definition gov_after :: "gov_state \<Rightarrow> error + gov_state \<Rightarrow> gov_state" where
  "gov_after s r = (case r of Inl _ \<Rightarrow> s | Inr s' \<Rightarrow> s')"

text \<open>
  States reachable from the constructor by successful transactions; the parameter
  \<open>allowed\<close> restricts which transactions may be used in which state.
\<close>

inductive gov_reach_via ::
  "(gov_state \<Rightarrow> address \<Rightarrow> gov_call \<Rightarrow> bool) \<Rightarrow> gov_state \<Rightarrow> bool"
  for allowed :: "gov_state \<Rightarrow> address \<Rightarrow> gov_call \<Rightarrow> bool" where
  gov_init: "gov_constructor now ministry = Inr s \<Longrightarrow> gov_reach_via allowed s"
| gov_step: "gov_reach_via allowed s \<Longrightarrow> allowed s sender c \<Longrightarrow>
     gov_exec sender now c s = Inr s' \<Longrightarrow> gov_reach_via allowed s'"

definition gov_reachable :: "gov_state \<Rightarrow> bool" where
  "gov_reachable = gov_reach_via (\<lambda>_ _ _. True)"

subsection \<open>ScholaChain (the certificate registry)\<close>

record Certificate =
  documentHash :: string
  ipfsCID :: string
  issuer :: address
  holder :: address
  issuedAt :: uint256
  revoked :: bool
  certificateType :: string

text \<open>
  The registry reads the governance contract through the address given to its
  constructor; the deployment script passes the address of the governance contract it has
  just deployed. A state of the system is therefore the storage of both contracts, and
  \<open>governanceContract\<close> is the address under which the registry finds \<open>governance\<close>.
\<close>

record world =
  governance :: gov_state
  certificates :: "Certificate list"
  governanceContract :: address
  totalCertificates :: uint256
  activeCertificates :: uint256

definition scholachain_constructor :: "gov_state \<Rightarrow> address \<Rightarrow> error + world" where
  "scholachain_constructor g governanceAddress =
     (if governanceAddress = 0 then Inl (Revert ''ScholaChain: Invalid governance address'')
      else Inr \<lparr>governance = g, certificates = [], governanceContract = governanceAddress,
                totalCertificates = 0, activeCertificates = 0\<rparr>)"

text \<open>
  An external call to a view function of the governance contract. The two functions called
  have no \<^verbatim>\<open>require\<close>, so the call returns and the \<^verbatim>\<open>catch\<close> branch is the \<open>Inl\<close> case
  that never arises.
\<close>

definition external_view :: "'a \<Rightarrow> error + 'a" where
  "external_view v = Inr v"

definition isAuthorizedIssuer_internal :: "world \<Rightarrow> address \<Rightarrow> bool" where
  "isAuthorizedIssuer_internal w a =
     (case external_view (canIssueCertificates (governance w) a) of
        Inr authorized \<Rightarrow> authorized
      | Inl _ \<Rightarrow> False)"

definition isSuperAdmin_internal :: "world \<Rightarrow> address \<Rightarrow> bool" where
  "isSuperAdmin_internal w a =
     (case external_view (isSuperAdmin (governance w) a) of
        Inr isAdmin \<Rightarrow> isAdmin
      | Inl _ \<Rightarrow> False)"

definition certificateExists :: "world \<Rightarrow> uint256 \<Rightarrow> bool" where
  "certificateExists w certificateId \<longleftrightarrow> unat certificateId < length (certificates w)"

definition issueCertificate ::
  "address \<Rightarrow> uint256 \<Rightarrow> string \<Rightarrow> string \<Rightarrow> address \<Rightarrow> string \<Rightarrow> world
     \<Rightarrow> error + (uint256 \<times> world)" where
  "issueCertificate sender now docHash cid hld ctype w =
     (if \<not> isAuthorizedIssuer_internal w sender
        then Inl (Revert ''ScholaChain: Not authorized issuer'')
      else if length docHash \<noteq> 66 then Inl (Revert ''ScholaChain: Invalid document hash'')
      else if \<not> length cid > 0 then Inl (Revert ''ScholaChain: IPFS CID required'')
      else if hld = 0 then Inl (Revert ''ScholaChain: Invalid holder address'')
      else if hld = sender then Inl (Revert ''ScholaChain: Cannot issue to self'')
      else
        let newCertificate =
              \<lparr>documentHash = docHash, ipfsCID = cid, issuer = sender, holder = hld,
               issuedAt = now, revoked = False, certificateType = ctype\<rparr>;
            w1 = w\<lparr>certificates := certificates w @ [newCertificate]\<rparr>;
            certificateId = (word_of_nat (length (certificates w1)) :: uint256) - 1
        in case checked_inc (totalCertificates w1) of
             Inl e \<Rightarrow> Inl e
           | Inr t \<Rightarrow>
               (case checked_inc (activeCertificates w1) of
                  Inl e \<Rightarrow> Inl e
                | Inr a \<Rightarrow>
                    Inr (certificateId,
                         w1\<lparr>totalCertificates := t, activeCertificates := a\<rparr>)))"

definition revokeCertificate :: "address \<Rightarrow> uint256 \<Rightarrow> uint256 \<Rightarrow> world \<Rightarrow> error + world" where
  "revokeCertificate sender now certificateId w =
     (if \<not> certificateExists w certificateId
        then Inl (Revert ''ScholaChain: Certificate does not exist'')
      else
        let certificate = certificates w ! unat certificateId
        in if \<not> (sender = issuer certificate \<or> isSuperAdmin_internal w sender)
             then Inl (Revert ''ScholaChain: Only issuer or super admin can revoke'')
           else if revoked certificate
             then Inl (Revert ''ScholaChain: Certificate already revoked'')
           else case checked_dec (activeCertificates w) of
             Inl e \<Rightarrow> Inl e
           | Inr a \<Rightarrow>
               Inr (w\<lparr>certificates := (certificates w)[unat certificateId :=
                                          certificate\<lparr>revoked := True\<rparr>],
                      activeCertificates := a\<rparr>))"

text \<open>
  \<^verbatim>\<open>verifyCertificate\<close> compares the Keccak-256 digests of the two strings. The digest
  function is a primitive of the platform and is the first argument \<open>keccak256\<close> here.
  The result is \<open>(isValid, issuer, holder, isRevoked)\<close>.
\<close>

definition verifyCertificate ::
  "(string \<Rightarrow> uint256) \<Rightarrow> world \<Rightarrow> uint256 \<Rightarrow> string
     \<Rightarrow> error + (bool \<times> address \<times> address \<times> bool)" where
  "verifyCertificate keccak256 w certificateId docHash =
     (if \<not> certificateExists w certificateId
        then Inl (Revert ''ScholaChain: Certificate does not exist'')
      else
        let certificate = certificates w ! unat certificateId
        in Inr (keccak256 (documentHash certificate) = keccak256 docHash
                  \<and> \<not> revoked certificate,
                issuer certificate, holder certificate, revoked certificate))"

definition getCertificate :: "world \<Rightarrow> uint256 \<Rightarrow> error + Certificate" where
  "getCertificate w certificateId =
     (if \<not> certificateExists w certificateId
        then Inl (Revert ''ScholaChain: Certificate does not exist'')
      else Inr (certificates w ! unat certificateId))"

definition getTotalCertificates :: "world \<Rightarrow> uint256" where
  "getTotalCertificates w = word_of_nat (length (certificates w))"

definition isIssuerAuthorized :: "world \<Rightarrow> address \<Rightarrow> bool" where
  "isIssuerAuthorized w a = isAuthorizedIssuer_internal w a"

text \<open>A transaction to either contract, and its execution on the system.\<close>

datatype world_call =
    Governance gov_call
  | IssueCertificate string string address string
  | RevokeCertificate uint256

fun world_exec :: "address \<Rightarrow> uint256 \<Rightarrow> world_call \<Rightarrow> world \<Rightarrow> error + world" where
  "world_exec sender now (Governance c) w =
     (case gov_exec sender now c (governance w) of
        Inl e \<Rightarrow> Inl e
      | Inr g \<Rightarrow> Inr (w\<lparr>governance := g\<rparr>))"
| "world_exec sender now (IssueCertificate h cid hld ctype) w =
     (case issueCertificate sender now h cid hld ctype w of
        Inl e \<Rightarrow> Inl e
      | Inr (certificateId, w') \<Rightarrow> Inr w')"
| "world_exec sender now (RevokeCertificate certificateId) w =
     revokeCertificate sender now certificateId w"

definition world_after :: "world \<Rightarrow> error + world \<Rightarrow> world" where
  "world_after w r = (case r of Inl _ \<Rightarrow> w | Inr w' \<Rightarrow> w')"

text \<open>
  Reachable states of the system: the governance contract is deployed, possibly used,
  then the registry is deployed on it, and transactions to either contract follow.
\<close>

inductive world_reachable :: "world \<Rightarrow> bool" where
  world_init: "gov_reachable g \<Longrightarrow> scholachain_constructor g governanceAddress = Inr w \<Longrightarrow>
     world_reachable w"
| world_step: "world_reachable w \<Longrightarrow> world_exec sender now c w = Inr w' \<Longrightarrow>
     world_reachable w'"

subsection \<open>Restricted transaction sets\<close>

text \<open>
  Transactions that cannot create a second holder of the role \<open>SUPER_ADMIN\<close> nor take
  the role from the super-admin pointer: \<^verbatim>\<open>registerInstitution\<close> with a role other than
  \<open>SUPER_ADMIN\<close>, and \<^verbatim>\<open>updateInstitutionRole\<close> that gives \<open>SUPER_ADMIN\<close> exactly
  when its target is the pointer.
\<close>

fun single_admin_call :: "gov_state \<Rightarrow> address \<Rightarrow> gov_call \<Rightarrow> bool" where
  "single_admin_call s sender (RegisterInstitution a nm d w r) \<longleftrightarrow> r \<noteq> SUPER_ADMIN"
| "single_admin_call s sender (UpdateInstitutionRole a r) \<longleftrightarrow>
     (r = SUPER_ADMIN \<longleftrightarrow> a = superAdmin s)"
| "single_admin_call s sender _ \<longleftrightarrow> True"

text \<open>
  Transactions that neither switch off an institution whose role is \<open>SUPER_ADMIN\<close> nor
  give that role to an inactive institution.
\<close>

fun active_admin_call :: "gov_state \<Rightarrow> address \<Rightarrow> gov_call \<Rightarrow> bool" where
  "active_admin_call s sender (SetInstitutionStatus a b) \<longleftrightarrow>
     b \<or> role (institutions s a) \<noteq> SUPER_ADMIN"
| "active_admin_call s sender (TransferSuperAdmin a) \<longleftrightarrow> isActive (institutions s a)"
| "active_admin_call s sender (UpdateInstitutionRole a r) \<longleftrightarrow>
     (r = SUPER_ADMIN \<longrightarrow> isActive (institutions s a))"
| "active_admin_call s sender _ \<longleftrightarrow> True"

text \<open>The number of active issuers, counted over the institution records.\<close>

definition active_issuer_count :: "gov_state \<Rightarrow> nat" where
  "active_issuer_count s =
     card {a. role (institutions s a) = ISSUER \<and> isActive (institutions s a)}"

subsection \<open>A concrete run\<close>

text \<open>
  The run follows the scenario of the specification. The ministry has address 1, the
  institution ``Acme University'' address 2, a second institution address 3 and the holder
  of the certificate address 4; block timestamps start at 100.
\<close>

definition ministry :: Institution where
  "ministry =
     \<lparr>name = ''Ministry of Education'',
      description = ''Governing body for educational certification'',
      website = ''https://education.gov'',
      isActive = True, registeredAt = 100, role = SUPER_ADMIN\<rparr>"

definition acme :: Institution where
  "acme =
     \<lparr>name = ''Acme University'', description = [], website = [],
      isActive = True, registeredAt = 101, role = ISSUER\<rparr>"

definition board :: Institution where
  "board =
     \<lparr>name = ''Board'', description = [], website = [],
      isActive = True, registeredAt = 101, role = SUPER_ADMIN\<rparr>"

text \<open>After the constructor, called with the ministry's address.\<close>

definition sc_genesis :: gov_state where
  "sc_genesis =
     \<lparr>institutions = (\<lambda>_. zero_Institution)(1 := ministry),
      authorizedIssuers = (\<lambda>_. False),
      superAdmin = 1, totalInstitutions = 1, activeIssuers = 0\<rparr>"

text \<open>After the ministry has registered address 2 as an issuer.\<close>

definition sc_issuer :: gov_state where
  "sc_issuer =
     \<lparr>institutions = (\<lambda>_. zero_Institution)(1 := ministry, 2 := acme),
      authorizedIssuers = (\<lambda>_. False)(2 := True),
      superAdmin = 1, totalInstitutions = 2, activeIssuers = 1\<rparr>"

text \<open>After the ministry has then revoked the issuer.\<close>

definition sc_issuer_revoked :: gov_state where
  "sc_issuer_revoked =
     \<lparr>institutions = (\<lambda>_. zero_Institution)(1 := ministry, 2 := acme\<lparr>isActive := False\<rparr>),
      authorizedIssuers = (\<lambda>_. False),
      superAdmin = 1, totalInstitutions = 2, activeIssuers = 0\<rparr>"

text \<open>After the ministry has then transferred the super-admin role to address 2.\<close>

definition sc_transferred :: gov_state where
  "sc_transferred =
     \<lparr>institutions = (\<lambda>_. zero_Institution)
        (1 := ministry\<lparr>role := ISSUER\<rparr>,
         2 := acme\<lparr>isActive := False, role := SUPER_ADMIN\<rparr>),
      authorizedIssuers = (\<lambda>_. False)(1 := True),
      superAdmin = 2, totalInstitutions = 2, activeIssuers = 0\<rparr>"

text \<open>From genesis: the ministry registers address 3 with the role \<open>SUPER_ADMIN\<close>.\<close>

definition sc_second_admin :: gov_state where
  "sc_second_admin =
     \<lparr>institutions = (\<lambda>_. zero_Institution)(1 := ministry, 3 := board),
      authorizedIssuers = (\<lambda>_. False),
      superAdmin = 1, totalInstitutions = 2, activeIssuers = 0\<rparr>"

text \<open>From genesis: the ministry sets its own status to inactive.\<close>

definition sc_admin_suspended :: gov_state where
  "sc_admin_suspended =
     \<lparr>institutions = (\<lambda>_. zero_Institution)(1 := ministry\<lparr>isActive := False\<rparr>),
      authorizedIssuers = (\<lambda>_. False),
      superAdmin = 1, totalInstitutions = 1, activeIssuers = 0\<rparr>"

definition sample_hash :: string where
  "sample_hash = ''0x'' @ replicate 64 (CHR ''a'')"

definition cert0 :: Certificate where
  "cert0 =
     \<lparr>documentHash = sample_hash, ipfsCID = ''QmExample'', issuer = 2, holder = 4,
      issuedAt = 200, revoked = False, certificateType = ''Bachelor''\<rparr>"

text \<open>The registry deployed on \<open>sc_issuer\<close>, the governance contract at address 10.\<close>

definition w_deployed :: world where
  "w_deployed =
     \<lparr>governance = sc_issuer, certificates = [], governanceContract = 10,
      totalCertificates = 0, activeCertificates = 0\<rparr>"

text \<open>After the issuer has issued certificate 0 to the holder.\<close>

definition w_issued :: world where
  "w_issued =
     \<lparr>governance = sc_issuer, certificates = [cert0], governanceContract = 10,
      totalCertificates = 1, activeCertificates = 1\<rparr>"

text \<open>After the ministry has revoked the issuer.\<close>

definition w_issuer_off :: world where
  "w_issuer_off =
     \<lparr>governance = sc_issuer_revoked, certificates = [cert0], governanceContract = 10,
      totalCertificates = 1, activeCertificates = 1\<rparr>"

text \<open>After the deactivated issuer has revoked its certificate 0.\<close>

definition w_cert_revoked :: world where
  "w_cert_revoked =
     \<lparr>governance = sc_issuer_revoked, certificates = [cert0\<lparr>revoked := True\<rparr>],
      governanceContract = 10, totalCertificates = 1, activeCertificates = 0\<rparr>"

text \<open>After the ministry has transferred the super-admin role to address 2.\<close>

definition w_transferred :: world where
  "w_transferred =
     \<lparr>governance = sc_transferred, certificates = [cert0\<lparr>revoked := True\<rparr>],
      governanceContract = 10, totalCertificates = 1, activeCertificates = 0\<rparr>"

subsection \<open>Properties stated over the model\<close>

text \<open>The two counters of the registry agree with the array of certificates.\<close>

definition counters_consistent :: "world \<Rightarrow> bool" where
  "counters_consistent w \<longleftrightarrow>
     unat (totalCertificates w) = length (certificates w) \<and>
     unat (activeCertificates w) = length (filter (\<lambda>c. \<not> revoked c) (certificates w))"

text \<open>
  The specification's notion of a well-formed document hash: 66 characters, the prefix
  \<^verbatim>\<open>0x\<close>, then 64 hexadecimal digits.
\<close>

definition is_hex_digit :: "char \<Rightarrow> bool" where
  "is_hex_digit c \<longleftrightarrow> c \<in> set ''0123456789abcdefABCDEF''"

definition spec_wellformed_documentHash :: "string \<Rightarrow> bool" where
  "spec_wellformed_documentHash h \<longleftrightarrow>
     length h = 66 \<and> take 2 h = ''0x'' \<and> list_all is_hex_digit (drop 2 h)"

section \<open>Basic facts\<close>

lemmas checked_defs = checked_inc_def checked_dec_def

lemmas gov_ops_defs = registerInstitution_def revokeInstitution_def reactivateInstitution_def
  updateInstitutionRole_def setInstitutionStatus_def transferSuperAdmin_def

lemma unat_inc: "x \<noteq> - 1 \<Longrightarrow> unat (x + 1 :: uint256) = Suc (unat x)"
proof -
  assume "x \<noteq> - 1"
  then have "1 + x \<noteq> 0"
    by (metis add.commute add_eq_0_iff2 add.right_neutral add_left_cancel)
  from unatSuc[OF this] show ?thesis by (simp add: add.commute)
qed

lemma unat_dec: "x \<noteq> 0 \<Longrightarrow> Suc (unat (x - 1 :: uint256)) = unat x"
  by (simp add: unat_minus_one unat_gt_0)

subsection \<open>What a successful governance transaction has checked and written\<close>

lemma gov_constructor_Inr:
  assumes "gov_constructor now m = Inr s"
  shows "m \<noteq> 0" "superAdmin s = m"
    "institutions s = (\<lambda>_. zero_Institution)(m :=
        \<lparr>name = ''Ministry of Education'',
         description = ''Governing body for educational certification'',
         website = ''https://education.gov'',
         isActive = True, registeredAt = now, role = SUPER_ADMIN\<rparr>)"
  using assms unfolding gov_constructor_def gov_empty_def
  by (auto split: if_splits)

lemma registerInstitution_Inr:
  assumes "registerInstitution sender now a nm d w r s = Inr s'"
  shows "sender = superAdmin s" "a \<noteq> 0" "nm \<noteq> []" "role (institutions s a) = NONE"
    "r \<noteq> NONE"
    "institutions s' = (institutions s)(a := \<lparr>name = nm, description = d, website = w,
        isActive = True, registeredAt = now, role = r\<rparr>)"
    "superAdmin s' = superAdmin s"
  using assms unfolding registerInstitution_def
  by (auto simp add: Let_def split: if_splits sum.splits)

lemma revokeInstitution_Inr:
  assumes "revokeInstitution sender now a reason s = Inr s'"
  shows "sender = superAdmin s" "a \<noteq> 0" "role (institutions s a) = ISSUER"
    "isActive (institutions s a)"
    "institutions s' = (institutions s)(a := (institutions s a)\<lparr>isActive := False\<rparr>)"
    "superAdmin s' = superAdmin s"
  using assms unfolding revokeInstitution_def
  by (auto simp add: Let_def split: if_splits sum.splits)

lemma reactivateInstitution_Inr:
  assumes "reactivateInstitution sender now a s = Inr s'"
  shows "sender = superAdmin s" "a \<noteq> 0" "role (institutions s a) = ISSUER"
    "\<not> isActive (institutions s a)"
    "institutions s' = (institutions s)(a := (institutions s a)\<lparr>isActive := True\<rparr>)"
    "superAdmin s' = superAdmin s"
  using assms unfolding reactivateInstitution_def
  by (auto simp add: Let_def split: if_splits sum.splits)

lemma updateInstitutionRole_Inr:
  assumes "updateInstitutionRole sender now a r s = Inr s'"
  shows "sender = superAdmin s" "a \<noteq> 0" "role (institutions s a) \<noteq> NONE" "r \<noteq> NONE"
    "institutions s' = (institutions s)(a := (institutions s a)\<lparr>role := r\<rparr>)"
    "superAdmin s' = superAdmin s"
  using assms unfolding updateInstitutionRole_def
  by (auto simp add: Let_def split: if_splits sum.splits)

lemma setInstitutionStatus_Inr:
  assumes "setInstitutionStatus sender now a b s = Inr s'"
  shows "sender = superAdmin s" "a \<noteq> 0" "role (institutions s a) \<noteq> NONE"
    "isActive (institutions s a) \<noteq> b"
    "institutions s' = (institutions s)(a := (institutions s a)\<lparr>isActive := b\<rparr>)"
    "superAdmin s' = superAdmin s"
  using assms unfolding setInstitutionStatus_def
  by (auto simp add: Let_def split: if_splits sum.splits)

lemma transferSuperAdmin_Inr:
  assumes "transferSuperAdmin sender now a s = Inr s'"
  shows "sender = superAdmin s" "a \<noteq> 0" "role (institutions s a) \<noteq> NONE"
    "a \<noteq> superAdmin s"
    "institutions s' = (institutions s)
        (superAdmin s := (institutions s (superAdmin s))\<lparr>role := ISSUER\<rparr>,
         a := (institutions s a)\<lparr>role := SUPER_ADMIN\<rparr>)"
    "superAdmin s' = a"
  using assms unfolding transferSuperAdmin_def
  by (auto simp add: Let_def split: if_splits sum.splits)

subsection \<open>What a successful registry transaction has checked and written\<close>

lemma issueCertificate_Inr:
  assumes "issueCertificate sender now h cid hld ctype w = Inr (i, w')"
  shows "isAuthorizedIssuer_internal w sender" "length h = 66" "cid \<noteq> []" "hld \<noteq> 0"
    "hld \<noteq> sender" "totalCertificates w \<noteq> - 1" "activeCertificates w \<noteq> - 1"
    "i = word_of_nat (length (certificates w))"
    "w' = w\<lparr>certificates := certificates w @
              [\<lparr>documentHash = h, ipfsCID = cid, issuer = sender, holder = hld,
                issuedAt = now, revoked = False, certificateType = ctype\<rparr>],
            totalCertificates := totalCertificates w + 1,
            activeCertificates := activeCertificates w + 1\<rparr>"
  using assms unfolding issueCertificate_def checked_defs
  by (auto simp add: Let_def split: if_splits sum.splits)

lemma revokeCertificate_Inr:
  assumes "revokeCertificate sender now i w = Inr w'"
  shows "certificateExists w i"
    "sender = issuer (certificates w ! unat i) \<or> isSuperAdmin_internal w sender"
    "\<not> revoked (certificates w ! unat i)" "activeCertificates w \<noteq> 0"
    "w' = w\<lparr>certificates := (certificates w)[unat i :=
                (certificates w ! unat i)\<lparr>revoked := True\<rparr>],
            activeCertificates := activeCertificates w - 1\<rparr>"
  using assms unfolding revokeCertificate_def checked_defs
  by (auto simp add: Let_def split: if_splits sum.splits)

subsection \<open>The counters of the registry\<close>

lemma length_filter_revoke:
  assumes "n < length cs" "\<not> revoked (cs ! n)"
  shows "Suc (length (filter (\<lambda>c. \<not> revoked c) (cs[n := (cs ! n)\<lparr>revoked := True\<rparr>])))
       = length (filter (\<lambda>c. \<not> revoked c) cs)"
  using assms
proof (induction cs arbitrary: n)
  case Nil
  then show ?case by simp
next
  case (Cons c cs)
  then show ?case by (cases n) auto
qed

lemma counters_consistent_step:
  assumes inv: "counters_consistent w" and ex: "world_exec sender now c w = Inr w'"
  shows "counters_consistent w'"
proof (cases c)
  case (Governance gc)
  with ex obtain g where "w' = w\<lparr>governance := g\<rparr>" by (auto split: sum.splits)
  with inv show ?thesis by (simp add: counters_consistent_def)
next
  case (IssueCertificate h cid hld ctype)
  with ex obtain i where e: "issueCertificate sender now h cid hld ctype w = Inr (i, w')"
    by (auto split: sum.splits)
  from inv issueCertificate_Inr(6,7,9)[OF e] show ?thesis
    by (simp add: counters_consistent_def unat_inc)
next
  case (RevokeCertificate i)
  with ex have e: "revokeCertificate sender now i w = Inr w'" by simp
  from revokeCertificate_Inr(1)[OF e] have lt: "unat i < length (certificates w)"
    by (simp add: certificateExists_def)
  from length_filter_revoke[OF lt revokeCertificate_Inr(3)[OF e]]
    unat_dec[OF revokeCertificate_Inr(4)[OF e]] inv revokeCertificate_Inr(5)[OF e]
  show ?thesis by (simp add: counters_consistent_def)
qed

lemma reachable_counters_consistent:
  assumes "world_reachable w"
  shows "counters_consistent w"
  using assms
proof (induction rule: world_reachable.induct)
  case (world_init g governanceAddress w)
  then show ?case
    by (auto simp: scholachain_constructor_def counters_consistent_def split: if_splits)
next
  case (world_step w sender now c w')
  then show ?case using counters_consistent_step by blast
qed

subsection \<open>The concrete run, step by step\<close>

lemma sc_genesis_run: "gov_constructor 100 1 = Inr sc_genesis"
  by (simp add: gov_constructor_def gov_empty_def sc_genesis_def ministry_def)

lemma sc_issuer_run:
  "registerInstitution 1 101 2 ''Acme University'' [] [] ISSUER sc_genesis = Inr sc_issuer"
  by (simp add: registerInstitution_def sc_genesis_def sc_issuer_def ministry_def acme_def
      zero_Institution_def checked_defs Let_def)

lemma sc_issuer_revoked_run:
  "revokeInstitution 1 102 2 ''fraud investigation'' sc_issuer = Inr sc_issuer_revoked"
  by (simp add: revokeInstitution_def sc_issuer_def sc_issuer_revoked_def ministry_def
      acme_def zero_Institution_def checked_defs Let_def fun_eq_iff)

lemma sc_transferred_run:
  "transferSuperAdmin 1 103 2 sc_issuer_revoked = Inr sc_transferred"
  by (simp add: transferSuperAdmin_def sc_issuer_revoked_def sc_transferred_def ministry_def
      acme_def zero_Institution_def checked_defs Let_def fun_eq_iff)

lemma sc_second_admin_run:
  "registerInstitution 1 101 3 ''Board'' [] [] SUPER_ADMIN sc_genesis = Inr sc_second_admin"
  by (simp add: registerInstitution_def sc_genesis_def sc_second_admin_def ministry_def
      board_def zero_Institution_def checked_defs Let_def)

lemma sc_admin_suspended_run:
  "setInstitutionStatus 1 101 1 False sc_genesis = Inr sc_admin_suspended"
  by (simp add: setInstitutionStatus_def sc_genesis_def sc_admin_suspended_def ministry_def
      zero_Institution_def checked_defs Let_def)

lemma w_deployed_run: "scholachain_constructor sc_issuer 10 = Inr w_deployed"
  by (simp add: scholachain_constructor_def w_deployed_def)

lemma w_issued_run:
  "issueCertificate 2 200 sample_hash ''QmExample'' 4 ''Bachelor'' w_deployed
     = Inr (0, w_issued)"
  by (simp add: issueCertificate_def w_deployed_def w_issued_def cert0_def sample_hash_def
      isAuthorizedIssuer_internal_def external_view_def canIssueCertificates_def
      sc_issuer_def acme_def checked_defs Let_def)

lemma w_issuer_off_run:
  "world_exec 1 102 (Governance (RevokeInstitution 2 ''fraud investigation'')) w_issued
     = Inr w_issuer_off"
  by (simp add: sc_issuer_revoked_run w_issued_def w_issuer_off_def)

lemma w_cert_revoked_run: "revokeCertificate 2 201 0 w_issuer_off = Inr w_cert_revoked"
  by (simp add: revokeCertificate_def certificateExists_def w_issuer_off_def
      w_cert_revoked_def cert0_def checked_defs Let_def)

lemma w_transferred_run:
  "world_exec 1 103 (Governance (TransferSuperAdmin 2)) w_cert_revoked = Inr w_transferred"
  by (simp add: sc_transferred_run w_cert_revoked_def w_transferred_def)

text \<open>Every state of the run is reachable.\<close>

lemma sc_genesis_reach: "gov_reach_via allowed sc_genesis"
  by (rule gov_init[OF sc_genesis_run])

lemma sc_issuer_reach:
  assumes "allowed sc_genesis 1 (RegisterInstitution 2 ''Acme University'' [] [] ISSUER)"
  shows "gov_reach_via allowed sc_issuer"
proof (rule gov_step[where s = sc_genesis and sender = 1 and now = 101
        and c = "RegisterInstitution 2 ''Acme University'' [] [] ISSUER"])
  show "gov_reach_via allowed sc_genesis" by (rule sc_genesis_reach)
  show "allowed sc_genesis 1 (RegisterInstitution 2 ''Acme University'' [] [] ISSUER)"
    by (rule assms)
  show "gov_exec 1 101 (RegisterInstitution 2 ''Acme University'' [] [] ISSUER) sc_genesis
          = Inr sc_issuer"
    by (simp add: sc_issuer_run)
qed

lemma sc_issuer_revoked_reach:
  assumes "allowed sc_genesis 1 (RegisterInstitution 2 ''Acme University'' [] [] ISSUER)"
    and "allowed sc_issuer 1 (RevokeInstitution 2 ''fraud investigation'')"
  shows "gov_reach_via allowed sc_issuer_revoked"
proof (rule gov_step[where s = sc_issuer and sender = 1 and now = 102
        and c = "RevokeInstitution 2 ''fraud investigation''"])
  show "gov_reach_via allowed sc_issuer" using assms(1) by (rule sc_issuer_reach)
  show "allowed sc_issuer 1 (RevokeInstitution 2 ''fraud investigation'')"
    by (rule assms(2))
  show "gov_exec 1 102 (RevokeInstitution 2 ''fraud investigation'') sc_issuer
          = Inr sc_issuer_revoked"
    by (simp add: sc_issuer_revoked_run)
qed

lemma sc_transferred_reach:
  assumes "allowed sc_genesis 1 (RegisterInstitution 2 ''Acme University'' [] [] ISSUER)"
    and "allowed sc_issuer 1 (RevokeInstitution 2 ''fraud investigation'')"
    and "allowed sc_issuer_revoked 1 (TransferSuperAdmin 2)"
  shows "gov_reach_via allowed sc_transferred"
proof (rule gov_step[where s = sc_issuer_revoked and sender = 1 and now = 103
        and c = "TransferSuperAdmin 2"])
  show "gov_reach_via allowed sc_issuer_revoked"
    using assms(1,2) by (rule sc_issuer_revoked_reach)
  show "allowed sc_issuer_revoked 1 (TransferSuperAdmin 2)" by (rule assms(3))
  show "gov_exec 1 103 (TransferSuperAdmin 2) sc_issuer_revoked = Inr sc_transferred"
    by (simp add: sc_transferred_run)
qed

lemma sc_second_admin_reach: "gov_reachable sc_second_admin"
  unfolding gov_reachable_def
proof (rule gov_step[where s = sc_genesis and sender = 1 and now = 101
        and c = "RegisterInstitution 3 ''Board'' [] [] SUPER_ADMIN"])
  show "gov_reach_via (\<lambda>_ _ _. True) sc_genesis" by (rule sc_genesis_reach)
  show "gov_exec 1 101 (RegisterInstitution 3 ''Board'' [] [] SUPER_ADMIN) sc_genesis
          = Inr sc_second_admin"
    by (simp add: sc_second_admin_run)
qed simp

lemma sc_admin_suspended_reach: "gov_reachable sc_admin_suspended"
  unfolding gov_reachable_def
proof (rule gov_step[where s = sc_genesis and sender = 1 and now = 101
        and c = "SetInstitutionStatus 1 False"])
  show "gov_reach_via (\<lambda>_ _ _. True) sc_genesis" by (rule sc_genesis_reach)
  show "gov_exec 1 101 (SetInstitutionStatus 1 False) sc_genesis = Inr sc_admin_suspended"
    by (simp add: sc_admin_suspended_run)
qed simp

lemma w_deployed_reach: "world_reachable w_deployed"
proof -
  have "gov_reachable sc_issuer"
    unfolding gov_reachable_def by (rule sc_issuer_reach) simp
  then show ?thesis by (rule world_init[OF _ w_deployed_run])
qed

lemma w_issued_reach: "world_reachable w_issued"
  by (rule world_step[OF w_deployed_reach,
        of 2 200 "IssueCertificate sample_hash ''QmExample'' 4 ''Bachelor''"])
     (simp add: w_issued_run)

lemma w_issuer_off_reach: "world_reachable w_issuer_off"
  by (rule world_step[OF w_issued_reach w_issuer_off_run])

lemma w_cert_revoked_reach: "world_reachable w_cert_revoked"
  by (rule world_step[OF w_issuer_off_reach, of 2 201 "RevokeCertificate 0"])
     (simp add: w_cert_revoked_run)

subsection \<open>The external calls of the registry\<close>

lemma isSuperAdmin_internal_eq: "isSuperAdmin_internal w a = isSuperAdmin (governance w) a"
  by (simp add: isSuperAdmin_internal_def external_view_def)

lemma isAuthorizedIssuer_internal_eq:
  "isAuthorizedIssuer_internal w a = canIssueCertificates (governance w) a"
  by (simp add: isAuthorizedIssuer_internal_def external_view_def)

lemma active_pos_if_unrevoked:
  assumes "counters_consistent w" "certificateExists w i"
    "\<not> revoked (certificates w ! unat i)"
  shows "activeCertificates w \<noteq> 0"
proof -
  from assms(2) have lt: "unat i < length (certificates w)"
    by (simp add: certificateExists_def)
  then have "certificates w ! unat i \<in> set (certificates w)" by simp
  with assms(3) have "filter (\<lambda>c. \<not> revoked c) (certificates w) \<noteq> []"
    by (auto simp: filter_empty_conv)
  with assms(1) have "unat (activeCertificates w) \<noteq> 0"
    by (simp add: counters_consistent_def)
  then show ?thesis by auto
qed

subsection \<open>One step of the governance contract and the role \<open>SUPER_ADMIN\<close>\<close>

lemma single_admin_step:
  assumes inv: "\<forall>a. role (institutions s a) = SUPER_ADMIN \<longleftrightarrow> a = superAdmin s"
    and ok: "single_admin_call s sender c" and ex: "gov_exec sender now c s = Inr s'"
  shows "\<forall>a. role (institutions s' a) = SUPER_ADMIN \<longleftrightarrow> a = superAdmin s'"
proof (cases c)
  case (RegisterInstitution a nm d w r)
  with ex have e: "registerInstitution sender now a nm d w r s = Inr s'" by simp
  from ok RegisterInstitution have "r \<noteq> SUPER_ADMIN" by simp
  moreover have "role (institutions s a) \<noteq> SUPER_ADMIN"
    using registerInstitution_Inr(4)[OF e] by simp
  then have "a \<noteq> superAdmin s" using inv by blast
  ultimately show ?thesis using inv registerInstitution_Inr(6,7)[OF e] by auto
next
  case (RevokeInstitution a reason)
  with ex have e: "revokeInstitution sender now a reason s = Inr s'" by simp
  with inv revokeInstitution_Inr(5,6)[OF e] show ?thesis by auto
next
  case (ReactivateInstitution a)
  with ex have e: "reactivateInstitution sender now a s = Inr s'" by simp
  with inv reactivateInstitution_Inr(5,6)[OF e] show ?thesis by auto
next
  case (UpdateInstitutionRole a r)
  with ex have e: "updateInstitutionRole sender now a r s = Inr s'" by simp
  from ok UpdateInstitutionRole have "r = SUPER_ADMIN \<longleftrightarrow> a = superAdmin s" by simp
  with inv updateInstitutionRole_Inr(5,6)[OF e] show ?thesis by auto
next
  case (SetInstitutionStatus a b)
  with ex have e: "setInstitutionStatus sender now a b s = Inr s'" by simp
  with inv setInstitutionStatus_Inr(5,6)[OF e] show ?thesis by auto
next
  case (TransferSuperAdmin a)
  with ex have e: "transferSuperAdmin sender now a s = Inr s'" by simp
  with inv transferSuperAdmin_Inr(4,5,6)[OF e] show ?thesis by auto
qed

lemma active_admin_step:
  assumes inv: "\<forall>a. role (institutions s a) = SUPER_ADMIN \<longrightarrow> isActive (institutions s a)"
    and ok: "active_admin_call s sender c" and ex: "gov_exec sender now c s = Inr s'"
  shows "\<forall>a. role (institutions s' a) = SUPER_ADMIN \<longrightarrow> isActive (institutions s' a)"
proof (cases c)
  case (RegisterInstitution a nm d w r)
  with ex have e: "registerInstitution sender now a nm d w r s = Inr s'" by simp
  with inv registerInstitution_Inr(6)[OF e] show ?thesis by auto
next
  case (RevokeInstitution a reason)
  with ex have e: "revokeInstitution sender now a reason s = Inr s'" by simp
  with inv revokeInstitution_Inr(3,5)[OF e] show ?thesis by auto
next
  case (ReactivateInstitution a)
  with ex have e: "reactivateInstitution sender now a s = Inr s'" by simp
  with inv reactivateInstitution_Inr(5)[OF e] show ?thesis by auto
next
  case (UpdateInstitutionRole a r)
  with ex have e: "updateInstitutionRole sender now a r s = Inr s'" by simp
  from ok UpdateInstitutionRole have "r = SUPER_ADMIN \<longrightarrow> isActive (institutions s a)"
    by simp
  with inv updateInstitutionRole_Inr(5)[OF e] show ?thesis by auto
next
  case (SetInstitutionStatus a b)
  with ex have e: "setInstitutionStatus sender now a b s = Inr s'" by simp
  from ok SetInstitutionStatus have "b \<or> role (institutions s a) \<noteq> SUPER_ADMIN" by simp
  with inv setInstitutionStatus_Inr(5)[OF e] show ?thesis by auto
next
  case (TransferSuperAdmin a)
  with ex have e: "transferSuperAdmin sender now a s = Inr s'" by simp
  from ok TransferSuperAdmin have "isActive (institutions s a)" by simp
  with inv transferSuperAdmin_Inr(5)[OF e] show ?thesis by auto
qed

section \<open>The claims\<close>

subsection \<open>C1: holders of the role \<open>SUPER_ADMIN\<close>\<close>

text \<open>
  C1, as amended. In every state reached from the constructor by successful transactions
  among which \<^verbatim>\<open>registerInstitution\<close> is never given the role \<open>SUPER_ADMIN\<close> and
  \<^verbatim>\<open>updateInstitutionRole\<close> gives \<open>SUPER_ADMIN\<close> exactly when its target is the
  super-admin pointer, exactly one address has the role \<open>SUPER_ADMIN\<close>, and it is the
  address stored in \<open>superAdmin\<close>. All other transactions, \<^verbatim>\<open>transferSuperAdmin\<close>
  included, are unrestricted.
\<close>

theorem one_super_admin_role_without_role_grants:
  assumes "gov_reach_via single_admin_call s"
  shows "{a. role (institutions s a) = SUPER_ADMIN} = {superAdmin s}"
proof -
  have "\<forall>a. role (institutions s a) = SUPER_ADMIN \<longleftrightarrow> a = superAdmin s"
    using assms
  proof (induction rule: gov_reach_via.induct)
    case (gov_init now ministry s)
    from gov_constructor_Inr(2,3)[OF this] show ?case
      by (auto simp: zero_Institution_def)
  next
    case (gov_step s sender c now s')
    then show ?case using single_admin_step by blast
  qed
  then show ?thesis by auto
qed

text \<open>The run register, revoke, transfer stays within these transactions.\<close>

theorem one_super_admin_role_witness:
  "gov_reach_via single_admin_call sc_transferred
   \<and> {a. role (institutions sc_transferred a) = SUPER_ADMIN} = {2}"
proof -
  have r: "gov_reach_via single_admin_call sc_transferred"
    by (rule sc_transferred_reach) simp_all
  from one_super_admin_role_without_role_grants[OF r] r show ?thesis
    by (simp add: sc_transferred_def)
qed

text \<open>
  C1 as stated fails: after the ministry (address 1) has registered address 3 with the
  role \<open>SUPER_ADMIN\<close>, which \<^verbatim>\<open>registerInstitution\<close> accepts, two addresses hold that
  role and the pointer is still address 1.
\<close>

theorem second_super_admin_role_counterexample:
  "gov_reachable sc_second_admin
   \<and> role (institutions sc_second_admin 1) = SUPER_ADMIN
   \<and> role (institutions sc_second_admin 3) = SUPER_ADMIN
   \<and> superAdmin sc_second_admin = 1
   \<and> (3 :: address) \<noteq> 1"
  using sc_second_admin_reach
  by (simp add: sc_second_admin_def ministry_def board_def)

subsection \<open>C2: the counter of active issuers\<close>

text \<open>
  C2 says that \<open>activeIssuers\<close> always equals the number of addresses with role
  \<open>ISSUER\<close> and \<open>isActive\<close>, and that \<^verbatim>\<open>transferSuperAdmin\<close> keeps the two equal. On
  the code the run register, revoke, transfer ends in a reachable state where the counter
  is 0 while address 1, the previous admin, is an active issuer that may issue
  certificates, so the count is 1: \<^verbatim>\<open>transferSuperAdmin\<close> rewrites the two roles and
  \<open>authorizedIssuers\<close> and leaves the counter alone. A later
  \<^verbatim>\<open>revokeInstitution\<close> of address 1 by the new admin then fails in the checked
  decrement of the counter.
\<close>

theorem activeIssuers_after_transfer:
  "gov_reachable sc_transferred
   \<and> activeIssuers sc_transferred = 0
   \<and> role (institutions sc_transferred 1) = ISSUER
   \<and> isActive (institutions sc_transferred 1)
   \<and> canIssueCertificates sc_transferred 1
   \<and> active_issuer_count sc_transferred = 1
   \<and> revokeInstitution 2 104 1 ''audit'' sc_transferred = Inl Panic"
proof -
  have r: "gov_reachable sc_transferred"
    unfolding gov_reachable_def by (rule sc_transferred_reach) simp_all
  have "{a. role (institutions sc_transferred a) = ISSUER
            \<and> isActive (institutions sc_transferred a)} = {1}"
    by (auto simp: sc_transferred_def ministry_def acme_def zero_Institution_def)
  then have n: "active_issuer_count sc_transferred = 1"
    by (simp add: active_issuer_count_def)
  have p: "revokeInstitution 2 104 1 ''audit'' sc_transferred = Inl Panic"
    by (simp add: revokeInstitution_def sc_transferred_def ministry_def checked_defs)
  from r n p show ?thesis
    by (simp add: sc_transferred_def ministry_def canIssueCertificates_def)
qed

subsection \<open>C3: is the super admin always active?\<close>

text \<open>
  C3, as amended. In every state reached from the constructor by successful transactions
  that exclude \<^verbatim>\<open>setInstitutionStatus\<close> to inactive on an institution whose role is
  \<open>SUPER_ADMIN\<close>, \<^verbatim>\<open>transferSuperAdmin\<close> to an inactive institution and
  \<^verbatim>\<open>updateInstitutionRole\<close> giving \<open>SUPER_ADMIN\<close> to an inactive institution, every
  institution whose role is \<open>SUPER_ADMIN\<close> is active. In particular
  \<^verbatim>\<open>revokeInstitution\<close>, which is not excluded, never deactivates one.
\<close>

theorem super_admin_role_active_without_deactivation:
  assumes "gov_reach_via active_admin_call s" "role (institutions s a) = SUPER_ADMIN"
  shows "isActive (institutions s a)"
proof -
  have "\<forall>a. role (institutions s a) = SUPER_ADMIN \<longrightarrow> isActive (institutions s a)"
    using assms(1)
  proof (induction rule: gov_reach_via.induct)
    case (gov_init now ministry s)
    from gov_constructor_Inr(3)[OF this] show ?case
      by (auto simp: zero_Institution_def)
  next
    case (gov_step s sender c now s')
    then show ?case using active_admin_step by blast
  qed
  then show ?thesis using assms(2) by blast
qed

theorem super_admin_role_active_witness:
  "gov_reach_via active_admin_call sc_issuer_revoked
   \<and> role (institutions sc_issuer_revoked 1) = SUPER_ADMIN
   \<and> isActive (institutions sc_issuer_revoked 1)"
proof -
  have r: "gov_reach_via active_admin_call sc_issuer_revoked"
    by (rule sc_issuer_revoked_reach) simp_all
  have ro: "role (institutions sc_issuer_revoked 1) = SUPER_ADMIN"
    by (simp add: sc_issuer_revoked_def ministry_def)
  from super_admin_role_active_without_deactivation[OF r ro] r ro show ?thesis by simp
qed

text \<open>
  C3 as stated fails: \<^verbatim>\<open>setInstitutionStatus\<close> has no check on the role, so the super
  admin can set its own status to inactive. It remains the pointer, with the role
  \<open>SUPER_ADMIN\<close>, and is inactive.
\<close>

theorem super_admin_deactivated_counterexample:
  "gov_reachable sc_admin_suspended
   \<and> superAdmin sc_admin_suspended = 1
   \<and> role (institutions sc_admin_suspended 1) = SUPER_ADMIN
   \<and> \<not> isActive (institutions sc_admin_suspended 1)"
  using sc_admin_suspended_reach
  by (simp add: sc_admin_suspended_def ministry_def)

subsection \<open>C4: revoking a certificate\<close>

text \<open>
  C4. In every reachable state of the system and for every id, \<^verbatim>\<open>revokeCertificate\<close>
  succeeds if and only if the certificate exists, the caller is its stored issuer or
  \<open>isSuperAdmin\<close> holds of the caller, and the certificate is not yet revoked; whether the
  issuer may still issue plays no part. On success the certificate is marked revoked,
  \<open>activeCertificates\<close> goes down by one and nothing else changes. The three failures are
  the reverts ``Certificate does not exist'', ``Only issuer or super admin can revoke'' and
  ``Certificate already revoked'', checked in this order, and a failed call leaves the state
  as it was.
\<close>

theorem revokeCertificate_outcomes:
  assumes "world_reachable w"
  shows "(\<not> isl (revokeCertificate caller now i w) \<longleftrightarrow>
            certificateExists w i
            \<and> (caller = issuer (certificates w ! unat i) \<or> isSuperAdmin (governance w) caller)
            \<and> \<not> revoked (certificates w ! unat i))
       \<and> (revokeCertificate caller now i w = Inr w' \<longrightarrow>
            revoked (certificates w' ! unat i)
            \<and> Suc (unat (activeCertificates w')) = unat (activeCertificates w)
            \<and> w' = w\<lparr>certificates := (certificates w)[unat i :=
                         (certificates w ! unat i)\<lparr>revoked := True\<rparr>],
                     activeCertificates := activeCertificates w - 1\<rparr>)
       \<and> (\<not> certificateExists w i \<longrightarrow>
            revokeCertificate caller now i w
              = Inl (Revert ''ScholaChain: Certificate does not exist''))
       \<and> (certificateExists w i
            \<and> \<not> (caller = issuer (certificates w ! unat i)
                   \<or> isSuperAdmin (governance w) caller)
            \<longrightarrow> revokeCertificate caller now i w
                  = Inl (Revert ''ScholaChain: Only issuer or super admin can revoke''))
       \<and> (certificateExists w i
            \<and> (caller = issuer (certificates w ! unat i) \<or> isSuperAdmin (governance w) caller)
            \<and> revoked (certificates w ! unat i)
            \<longrightarrow> revokeCertificate caller now i w
                  = Inl (Revert ''ScholaChain: Certificate already revoked''))
       \<and> (isl (revokeCertificate caller now i w) \<longrightarrow>
            world_after w (revokeCertificate caller now i w) = w)"
proof -
  have cc: "counters_consistent w" using assms by (rule reachable_counters_consistent)
  have A: "\<not> isl (revokeCertificate caller now i w) \<longleftrightarrow>
            certificateExists w i
            \<and> (caller = issuer (certificates w ! unat i) \<or> isSuperAdmin (governance w) caller)
            \<and> \<not> revoked (certificates w ! unat i)"
    using active_pos_if_unrevoked[OF cc, of i]
    by (auto simp: revokeCertificate_def Let_def checked_defs isSuperAdmin_internal_eq)
  have B: "revokeCertificate caller now i w = Inr w' \<longrightarrow>
            revoked (certificates w' ! unat i)
            \<and> Suc (unat (activeCertificates w')) = unat (activeCertificates w)
            \<and> w' = w\<lparr>certificates := (certificates w)[unat i :=
                         (certificates w ! unat i)\<lparr>revoked := True\<rparr>],
                     activeCertificates := activeCertificates w - 1\<rparr>"
  proof
    assume e: "revokeCertificate caller now i w = Inr w'"
    from revokeCertificate_Inr(1)[OF e] have lt: "unat i < length (certificates w)"
      by (simp add: certificateExists_def)
    from revokeCertificate_Inr(5)[OF e] lt unat_dec[OF revokeCertificate_Inr(4)[OF e]]
    show "revoked (certificates w' ! unat i)
            \<and> Suc (unat (activeCertificates w')) = unat (activeCertificates w)
            \<and> w' = w\<lparr>certificates := (certificates w)[unat i :=
                         (certificates w ! unat i)\<lparr>revoked := True\<rparr>],
                     activeCertificates := activeCertificates w - 1\<rparr>"
      by simp
  qed
  have C: "\<not> certificateExists w i \<longrightarrow>
            revokeCertificate caller now i w
              = Inl (Revert ''ScholaChain: Certificate does not exist'')"
    by (simp add: revokeCertificate_def)
  have D: "certificateExists w i
            \<and> \<not> (caller = issuer (certificates w ! unat i)
                   \<or> isSuperAdmin (governance w) caller)
            \<longrightarrow> revokeCertificate caller now i w
                  = Inl (Revert ''ScholaChain: Only issuer or super admin can revoke'')"
    by (simp add: revokeCertificate_def Let_def isSuperAdmin_internal_eq)
  have E: "certificateExists w i
            \<and> (caller = issuer (certificates w ! unat i) \<or> isSuperAdmin (governance w) caller)
            \<and> revoked (certificates w ! unat i)
            \<longrightarrow> revokeCertificate caller now i w
                  = Inl (Revert ''ScholaChain: Certificate already revoked'')"
    by (auto simp add: revokeCertificate_def Let_def isSuperAdmin_internal_eq)
  have F: "isl (revokeCertificate caller now i w) \<longrightarrow>
            world_after w (revokeCertificate caller now i w) = w"
    by (cases "revokeCertificate caller now i w") (simp_all add: world_after_def)
  show ?thesis
    by (rule conjI[OF A conjI[OF B conjI[OF C conjI[OF D conjI[OF E F]]]]])
qed

text \<open>
  The scenario of the specification: the issuer (address 2) has been revoked by the
  ministry and can no longer issue, yet revokes its own certificate 0. A second revocation,
  a revocation by the holder and the revocation of an id that does not exist fail.
\<close>

theorem revokeCertificate_outcomes_witness:
  "world_reachable w_issuer_off
   \<and> \<not> canIssueCertificates (governance w_issuer_off) 2
   \<and> revokeCertificate 2 201 0 w_issuer_off = Inr w_cert_revoked
   \<and> revoked (certificates w_cert_revoked ! unat (0 :: uint256))
   \<and> Suc (unat (activeCertificates w_cert_revoked)) = unat (activeCertificates w_issuer_off)
   \<and> revokeCertificate 2 202 0 w_cert_revoked
        = Inl (Revert ''ScholaChain: Certificate already revoked'')
   \<and> revokeCertificate 4 202 0 w_issuer_off
        = Inl (Revert ''ScholaChain: Only issuer or super admin can revoke'')
   \<and> revokeCertificate 2 202 1 w_issuer_off
        = Inl (Revert ''ScholaChain: Certificate does not exist'')"
proof -
  have nc: "\<not> canIssueCertificates (governance w_issuer_off) 2"
    by (simp add: w_issuer_off_def sc_issuer_revoked_def canIssueCertificates_def)
  have ex0: "certificateExists w_cert_revoked 0" "certificateExists w_issuer_off 0"
    "\<not> certificateExists w_issuer_off 1"
    by (simp_all add: certificateExists_def w_cert_revoked_def w_issuer_off_def)
  have iss: "issuer (certificates w_cert_revoked ! unat (0 :: uint256)) = 2"
    "revoked (certificates w_cert_revoked ! unat (0 :: uint256))"
    "issuer (certificates w_issuer_off ! unat (0 :: uint256)) = 2"
    by (simp_all add: w_cert_revoked_def w_issuer_off_def cert0_def)
  have na: "\<not> isSuperAdmin (governance w_issuer_off) 4"
    by (simp add: w_issuer_off_def sc_issuer_revoked_def isSuperAdmin_def)
  have 1: "revoked (certificates w_cert_revoked ! unat (0 :: uint256))
           \<and> Suc (unat (activeCertificates w_cert_revoked))
               = unat (activeCertificates w_issuer_off)"
    using revokeCertificate_outcomes[OF w_issuer_off_reach, of 2 201 0 w_cert_revoked]
      w_cert_revoked_run by blast
  have 2: "revokeCertificate 2 202 0 w_cert_revoked
             = Inl (Revert ''ScholaChain: Certificate already revoked'')"
    using revokeCertificate_outcomes[OF w_cert_revoked_reach, of 2 202 0] ex0(1) iss(1,2)
    by simp
  have 3: "revokeCertificate 4 202 0 w_issuer_off
             = Inl (Revert ''ScholaChain: Only issuer or super admin can revoke'')"
    using revokeCertificate_outcomes[OF w_issuer_off_reach, of 4 202 0] ex0(2) iss(3) na
    by simp
  have 4: "revokeCertificate 2 202 1 w_issuer_off
             = Inl (Revert ''ScholaChain: Certificate does not exist'')"
    using revokeCertificate_outcomes[OF w_issuer_off_reach, of 2 202 1] ex0(3) by simp
  from 1 2 3 4 nc w_cert_revoked_run w_issuer_off_reach show ?thesis by simp
qed

subsection \<open>C5: verifying a certificate\<close>

text \<open>
  C5. \<^verbatim>\<open>verifyCertificate\<close> is a query: its model returns a result and no state. For an
  existing id it returns \<open>isValid\<close>, the stored issuer, the stored holder and the revoked
  flag, where \<open>isValid\<close> holds exactly when the digests of the stored and the supplied
  document hash agree and the certificate is not revoked; whenever the digest function does
  not collide on these two strings, that is exactly when the stored hash equals the
  supplied one and the certificate is not revoked. For an id that does not exist it reverts
  with ``Certificate does not exist''. The result does not depend on the state of the
  governance contract.
\<close>

theorem verifyCertificate_result:
  "(certificateExists w i \<longrightarrow>
      verifyCertificate keccak256 w i h
        = Inr (keccak256 (documentHash (certificates w ! unat i)) = keccak256 h
                 \<and> \<not> revoked (certificates w ! unat i),
               issuer (certificates w ! unat i),
               holder (certificates w ! unat i),
               revoked (certificates w ! unat i)))
   \<and> (certificateExists w i
        \<and> (keccak256 (documentHash (certificates w ! unat i)) = keccak256 h
             \<longrightarrow> documentHash (certificates w ! unat i) = h) \<longrightarrow>
      verifyCertificate keccak256 w i h
        = Inr (documentHash (certificates w ! unat i) = h
                 \<and> \<not> revoked (certificates w ! unat i),
               issuer (certificates w ! unat i),
               holder (certificates w ! unat i),
               revoked (certificates w ! unat i)))
   \<and> (\<not> certificateExists w i \<longrightarrow>
        verifyCertificate keccak256 w i h
          = Inl (Revert ''ScholaChain: Certificate does not exist''))
   \<and> verifyCertificate keccak256 (w\<lparr>governance := g\<rparr>) i h
        = verifyCertificate keccak256 w i h"
  by (auto simp: verifyCertificate_def certificateExists_def Let_def)

text \<open>
  The witness takes the length of a string as its digest, which tells the two hashes used
  apart: the issued certificate verifies with its hash, not with another one, and not
  after its revocation.
\<close>

theorem verifyCertificate_result_witness:
  "verifyCertificate (\<lambda>s. word_of_nat (length s)) w_issued 0 sample_hash
     = Inr (True, 2, 4, False)
   \<and> verifyCertificate (\<lambda>s. word_of_nat (length s)) w_cert_revoked 0 sample_hash
     = Inr (False, 2, 4, True)
   \<and> verifyCertificate (\<lambda>s. word_of_nat (length s)) w_issued 0 ''0x00''
     = Inr (False, 2, 4, False)
   \<and> verifyCertificate (\<lambda>s. word_of_nat (length s)) w_issued 1 sample_hash
     = Inl (Revert ''ScholaChain: Certificate does not exist'')"
proof -
  have e: "certificateExists w_issued 0" "certificateExists w_cert_revoked 0"
    "\<not> certificateExists w_issued 1"
    by (simp_all add: certificateExists_def w_issued_def w_cert_revoked_def)
  have c: "certificates w_issued ! unat (0 :: uint256) = cert0"
    "certificates w_cert_revoked ! unat (0 :: uint256) = cert0\<lparr>revoked := True\<rparr>"
    by (simp_all add: w_issued_def w_cert_revoked_def)
  have l: "length sample_hash = 66" by (simp add: sample_hash_def)
  then have h1:
    "(word_of_nat (length sample_hash) :: uint256) \<noteq> word_of_nat (length ''0x00'')"
    by simp
  then have h: "sample_hash \<noteq> ''0x00''" by (rule contrapos_nn) simp
  from verifyCertificate_result[of w_issued 0 "\<lambda>s. word_of_nat (length s)" sample_hash]
    verifyCertificate_result[of w_cert_revoked 0 "\<lambda>s. word_of_nat (length s)" sample_hash]
    verifyCertificate_result[of w_issued 0 "\<lambda>s. word_of_nat (length s)" "''0x00''"]
    verifyCertificate_result[of w_issued 1 "\<lambda>s. word_of_nat (length s)" sample_hash]
    e c h h1
  show ?thesis by (simp add: cert0_def)
qed

subsection \<open>C6: who can issue\<close>

text \<open>
  C6. In every reachable state of the system whose counter \<open>totalCertificates\<close> is below
  the largest \<^verbatim>\<open>uint256\<close> (reaching it takes \<open>2^256 - 1\<close> issued certificates), and for
  arguments that pass the argument checks (a document hash of 66 bytes, which every
  well-formed hash is, a non-empty content reference, a holder that is neither zero nor the
  caller), \<open>canIssueCertificates addr\<close> holds in the governance contract if and only if
  \<^verbatim>\<open>issueCertificate\<close> called by \<open>addr\<close> succeeds. The authorization is read from the
  current governance state at the call; an unauthorized caller gets ``Not authorized
  issuer''.
\<close>

theorem canIssue_iff_issue_succeeds:
  assumes "world_reachable w" and "totalCertificates w \<noteq> - 1"
    and "length h = 66" and "cid \<noteq> []" and "hld \<noteq> 0" and "hld \<noteq> addr"
  shows "(canIssueCertificates (governance w) addr
            \<longleftrightarrow> \<not> isl (issueCertificate addr now h cid hld ctype w))
       \<and> (\<not> canIssueCertificates (governance w) addr \<longrightarrow>
            issueCertificate addr now h cid hld ctype w
              = Inl (Revert ''ScholaChain: Not authorized issuer''))
       \<and> isIssuerAuthorized w addr = canIssueCertificates (governance w) addr"
proof -
  have cc: "counters_consistent w" using assms(1) by (rule reachable_counters_consistent)
  have "length (filter (\<lambda>c. \<not> revoked c) (certificates w)) \<le> length (certificates w)"
    by simp
  with cc have "unat (activeCertificates w) \<le> unat (totalCertificates w)"
    by (simp add: counters_consistent_def)
  then have "activeCertificates w \<le> totalCertificates w" by (simp add: word_le_nat_alt)
  with assms(2) have a: "activeCertificates w \<noteq> - 1"
    using word_n1_ge[of "totalCertificates w"] by (auto dest: antisym)
  show ?thesis using assms(2-6) a
    by (simp add: issueCertificate_def Let_def checked_defs isAuthorizedIssuer_internal_eq
        isIssuerAuthorized_def)
qed

text \<open>
  The issuer (address 2) can issue while it is active and no longer once the ministry has
  revoked it, on the same registry.
\<close>

theorem canIssue_iff_issue_succeeds_witness:
  "world_reachable w_issued
   \<and> canIssueCertificates (governance w_issued) 2
   \<and> \<not> isl (issueCertificate 2 203 sample_hash ''QmExample'' 4 ''Master'' w_issued)
   \<and> world_reachable w_issuer_off
   \<and> \<not> canIssueCertificates (governance w_issuer_off) 2
   \<and> issueCertificate 2 203 sample_hash ''QmExample'' 4 ''Master'' w_issuer_off
        = Inl (Revert ''ScholaChain: Not authorized issuer'')"
proof -
  have t: "totalCertificates w_issued \<noteq> - 1" "totalCertificates w_issuer_off \<noteq> - 1"
    by (simp_all add: w_issued_def w_issuer_off_def)
  have l: "length sample_hash = 66" by (simp add: sample_hash_def)
  have c: "canIssueCertificates (governance w_issued) 2"
    "\<not> canIssueCertificates (governance w_issuer_off) 2"
    by (simp_all add: w_issued_def w_issuer_off_def sc_issuer_def sc_issuer_revoked_def
        acme_def canIssueCertificates_def)
  have 1: "\<not> isl (issueCertificate 2 203 sample_hash ''QmExample'' 4 ''Master'' w_issued)"
    using canIssue_iff_issue_succeeds[OF w_issued_reach t(1) l, of "''QmExample''" 4 2 203
        "''Master''"] c(1)
    by simp
  have 2: "issueCertificate 2 203 sample_hash ''QmExample'' 4 ''Master'' w_issuer_off
             = Inl (Revert ''ScholaChain: Not authorized issuer'')"
    using canIssue_iff_issue_succeeds[OF w_issuer_off_reach t(2) l, of "''QmExample''" 4 2 203
        "''Master''"] c(2)
    by simp
  from 1 2 c w_issued_reach w_issuer_off_reach show ?thesis by simp
qed

subsection \<open>C7: the argument checks of issuing\<close>

text \<open>
  C7, as amended. \<^verbatim>\<open>issueCertificate\<close> succeeds only when the document hash is exactly
  66 bytes long, the content reference is non-empty and the holder is neither the zero
  address nor the caller. A call by an authorized issuer that violates one of these reverts
  with the message of the first check that fails, in the order hash, content reference,
  zero holder, holder equal to caller, and leaves the state as it was. A call by a caller
  that is not authorized reverts with ``Not authorized issuer'' whatever its arguments.
  The contract checks the length of the hash only, neither the prefix nor the digits.
\<close>

theorem issueCertificate_argument_checks:
  "(issueCertificate sender now h cid hld ctype w = Inr (i, w') \<longrightarrow>
      length h = 66 \<and> cid \<noteq> [] \<and> hld \<noteq> 0 \<and> hld \<noteq> sender)
   \<and> (canIssueCertificates (governance w) sender
        \<and> \<not> (length h = 66 \<and> cid \<noteq> [] \<and> hld \<noteq> 0 \<and> hld \<noteq> sender) \<longrightarrow>
      issueCertificate sender now h cid hld ctype w
        = Inl (Revert (if length h \<noteq> 66 then ''ScholaChain: Invalid document hash''
                       else if cid = [] then ''ScholaChain: IPFS CID required''
                       else if hld = 0 then ''ScholaChain: Invalid holder address''
                       else ''ScholaChain: Cannot issue to self''))
      \<and> world_after w (world_exec sender now (IssueCertificate h cid hld ctype) w) = w)
   \<and> (\<not> canIssueCertificates (governance w) sender \<longrightarrow>
      issueCertificate sender now h cid hld ctype w
        = Inl (Revert ''ScholaChain: Not authorized issuer'')
      \<and> world_after w (world_exec sender now (IssueCertificate h cid hld ctype) w) = w)"
proof -
  have A: "issueCertificate sender now h cid hld ctype w = Inr (i, w') \<longrightarrow>
      length h = 66 \<and> cid \<noteq> [] \<and> hld \<noteq> 0 \<and> hld \<noteq> sender"
    by (auto dest: issueCertificate_Inr(2,3,4,5))
  have B: "canIssueCertificates (governance w) sender
        \<and> \<not> (length h = 66 \<and> cid \<noteq> [] \<and> hld \<noteq> 0 \<and> hld \<noteq> sender) \<longrightarrow>
      issueCertificate sender now h cid hld ctype w
        = Inl (Revert (if length h \<noteq> 66 then ''ScholaChain: Invalid document hash''
                       else if cid = [] then ''ScholaChain: IPFS CID required''
                       else if hld = 0 then ''ScholaChain: Invalid holder address''
                       else ''ScholaChain: Cannot issue to self''))
      \<and> world_after w (world_exec sender now (IssueCertificate h cid hld ctype) w) = w"
    by (simp add: issueCertificate_def isAuthorizedIssuer_internal_eq world_after_def)
  have C: "\<not> canIssueCertificates (governance w) sender \<longrightarrow>
      issueCertificate sender now h cid hld ctype w
        = Inl (Revert ''ScholaChain: Not authorized issuer'')
      \<and> world_after w (world_exec sender now (IssueCertificate h cid hld ctype) w) = w"
    by (simp add: issueCertificate_def isAuthorizedIssuer_internal_eq world_after_def)
  show ?thesis by (rule conjI[OF A conjI[OF B C]])
qed

theorem issueCertificate_argument_checks_witness:
  "issueCertificate 2 200 sample_hash ''QmExample'' 4 ''Bachelor'' w_deployed
     = Inr (0, w_issued)
   \<and> length sample_hash = 66
   \<and> canIssueCertificates (governance w_deployed) 2
   \<and> issueCertificate 2 200 ''0xabc'' ''QmExample'' 4 ''Bachelor'' w_deployed
        = Inl (Revert ''ScholaChain: Invalid document hash'')
   \<and> issueCertificate 2 200 sample_hash ''QmExample'' 2 ''Bachelor'' w_deployed
        = Inl (Revert ''ScholaChain: Cannot issue to self'')
   \<and> \<not> canIssueCertificates (governance w_deployed) 4
   \<and> issueCertificate 4 200 ''0xabc'' [] 0 ''Bachelor'' w_deployed
        = Inl (Revert ''ScholaChain: Not authorized issuer'')"
proof -
  have c: "canIssueCertificates (governance w_deployed) 2"
    by (simp add: w_deployed_def sc_issuer_def acme_def canIssueCertificates_def)
  have n: "\<not> canIssueCertificates (governance w_deployed) 4"
    by (simp add: w_deployed_def sc_issuer_def acme_def canIssueCertificates_def)
  have l: "length sample_hash = 66" by (simp add: sample_hash_def)
  have 1: "length sample_hash = 66"
    using issueCertificate_argument_checks[of 2 200 sample_hash "''QmExample''" 4
        "''Bachelor''" w_deployed 0 w_issued] w_issued_run by blast
  have 2: "issueCertificate 2 200 ''0xabc'' ''QmExample'' 4 ''Bachelor'' w_deployed
        = Inl (Revert ''ScholaChain: Invalid document hash'')"
    using issueCertificate_argument_checks[of 2 200 "''0xabc''" "''QmExample''" 4
        "''Bachelor''" w_deployed] c by simp
  have 3: "issueCertificate 2 200 sample_hash ''QmExample'' 2 ''Bachelor'' w_deployed
        = Inl (Revert ''ScholaChain: Cannot issue to self'')"
    using issueCertificate_argument_checks[of 2 200 sample_hash "''QmExample''" 2
        "''Bachelor''" w_deployed] c l by simp
  have 4: "issueCertificate 4 200 ''0xabc'' [] 0 ''Bachelor'' w_deployed
        = Inl (Revert ''ScholaChain: Not authorized issuer'')"
    using issueCertificate_argument_checks[of 4 200 "''0xabc''" "[]" 0 "''Bachelor''"
        w_deployed] n by simp
  from 1 2 3 4 c n w_issued_run show ?thesis by simp
qed

text \<open>
  C7 as stated fails: a string of 66 letters \<^verbatim>\<open>z\<close> is no hexadecimal representation of
  anything, and the authorized issuer (address 2) issues a certificate with it.
\<close>

theorem malformed_hash_accepted_counterexample:
  "world_reachable w_deployed
   \<and> \<not> spec_wellformed_documentHash (replicate 66 (CHR ''z''))
   \<and> \<not> isl (issueCertificate 2 200 (replicate 66 (CHR ''z'')) ''QmExample'' 4 ''Bachelor''
              w_deployed)"
proof -
  have "take 2 (replicate 66 (CHR ''z'')) \<noteq> ''0x''"
    by (simp add: numeral_2_eq_2)
  then have a: "\<not> spec_wellformed_documentHash (replicate 66 (CHR ''z''))"
    by (simp add: spec_wellformed_documentHash_def)
  have b: "\<not> isl (issueCertificate 2 200 (replicate 66 (CHR ''z'')) ''QmExample'' 4
                   ''Bachelor'' w_deployed)"
    by (simp add: issueCertificate_def w_deployed_def
        isAuthorizedIssuer_internal_def external_view_def canIssueCertificates_def
        sc_issuer_def acme_def checked_defs Let_def)
  from a b w_deployed_reach show ?thesis by simp
qed

subsection \<open>C8: certificate ids\<close>

text \<open>
  C8. In every reachable state of the system the existing certificate ids are exactly the
  ids below \<open>totalCertificates\<close>. A successful \<^verbatim>\<open>issueCertificate\<close> returns the value
  \<open>totalCertificates\<close> had before the call, an id that did not exist before and exists
  after, and raises \<open>totalCertificates\<close> by one. No transaction removes a certificate:
  after any successful transaction every certificate that existed still exists, the same
  record but possibly with its revoked flag set.
\<close>

theorem certificate_ids_sequential:
  assumes "world_reachable w"
  shows "{i. certificateExists w i} = {i. i < totalCertificates w}
       \<and> (issueCertificate sender now h cid hld ctype w = Inr (i, w') \<longrightarrow>
            i = totalCertificates w
            \<and> unat (totalCertificates w') = Suc (unat (totalCertificates w))
            \<and> \<not> certificateExists w i \<and> certificateExists w' i)
       \<and> (world_exec sender now c w = Inr w' \<longrightarrow>
            length (certificates w) \<le> length (certificates w')
            \<and> (\<forall>j. certificateExists w j \<longrightarrow>
                  certificateExists w' j
                  \<and> (certificates w' ! unat j = certificates w ! unat j
                      \<or> certificates w' ! unat j
                           = (certificates w ! unat j)\<lparr>revoked := True\<rparr>)))"
proof -
  have cc: "counters_consistent w" using assms by (rule reachable_counters_consistent)
  then have len: "unat (totalCertificates w) = length (certificates w)"
    by (simp add: counters_consistent_def)
  have A: "{i. certificateExists w i} = {i. i < totalCertificates w}"
    by (simp add: certificateExists_def len[symmetric] word_less_nat_alt)
  have B: "issueCertificate sender now h cid hld ctype w = Inr (i, w') \<longrightarrow>
            i = totalCertificates w
            \<and> unat (totalCertificates w') = Suc (unat (totalCertificates w))
            \<and> \<not> certificateExists w i \<and> certificateExists w' i"
  proof
    assume e: "issueCertificate sender now h cid hld ctype w = Inr (i, w')"
    from issueCertificate_Inr(8)[OF e] have i: "i = totalCertificates w"
      by (simp add: len[symmetric])
    then have ui: "unat i = length (certificates w)" using len by simp
    from issueCertificate_Inr(9)[OF e] unat_inc[OF issueCertificate_Inr(6)[OF e]] i ui
    show "i = totalCertificates w
            \<and> unat (totalCertificates w') = Suc (unat (totalCertificates w))
            \<and> \<not> certificateExists w i \<and> certificateExists w' i"
      by (simp add: certificateExists_def)
  qed
  have C: "world_exec sender now c w = Inr w' \<longrightarrow>
            length (certificates w) \<le> length (certificates w')
            \<and> (\<forall>j. certificateExists w j \<longrightarrow>
                  certificateExists w' j
                  \<and> (certificates w' ! unat j = certificates w ! unat j
                      \<or> certificates w' ! unat j
                           = (certificates w ! unat j)\<lparr>revoked := True\<rparr>))"
  proof (cases c)
    case (Governance gc)
    then show ?thesis by (auto simp: certificateExists_def split: sum.splits)
  next
    case (IssueCertificate h' cid' hld' ctype')
    show ?thesis
    proof
      assume "world_exec sender now c w = Inr w'"
      with IssueCertificate obtain k where
        e: "issueCertificate sender now h' cid' hld' ctype' w = Inr (k, w')"
        by (auto split: sum.splits)
      from issueCertificate_Inr(9)[OF e]
      show "length (certificates w) \<le> length (certificates w')
            \<and> (\<forall>j. certificateExists w j \<longrightarrow>
                  certificateExists w' j
                  \<and> (certificates w' ! unat j = certificates w ! unat j
                      \<or> certificates w' ! unat j
                           = (certificates w ! unat j)\<lparr>revoked := True\<rparr>))"
        by (simp add: certificateExists_def nth_append)
    qed
  next
    case (RevokeCertificate k)
    show ?thesis
    proof
      assume "world_exec sender now c w = Inr w'"
      with RevokeCertificate have e: "revokeCertificate sender now k w = Inr w'" by simp
      from revokeCertificate_Inr(1)[OF e] have lt: "unat k < length (certificates w)"
        by (simp add: certificateExists_def)
      from revokeCertificate_Inr(5)[OF e] lt
      show "length (certificates w) \<le> length (certificates w')
            \<and> (\<forall>j. certificateExists w j \<longrightarrow>
                  certificateExists w' j
                  \<and> (certificates w' ! unat j = certificates w ! unat j
                      \<or> certificates w' ! unat j
                           = (certificates w ! unat j)\<lparr>revoked := True\<rparr>))"
        by (auto simp: certificateExists_def nth_list_update)
    qed
  qed
  show ?thesis by (rule conjI[OF A conjI[OF B C]])
qed

theorem certificate_ids_sequential_witness:
  "world_reachable w_deployed
   \<and> {i. certificateExists w_issued i} = {i. i < 1}
   \<and> issueCertificate 2 200 sample_hash ''QmExample'' 4 ''Bachelor'' w_deployed
        = Inr (0, w_issued)
   \<and> totalCertificates w_deployed = 0
   \<and> unat (totalCertificates w_issued) = Suc (unat (totalCertificates w_deployed))
   \<and> \<not> certificateExists w_deployed 0
   \<and> certificateExists w_issued 0
   \<and> world_exec 2 201 (RevokeCertificate 0) w_issuer_off = Inr w_cert_revoked
   \<and> certificateExists w_cert_revoked 0"
proof -
  have t: "totalCertificates w_deployed = 0" by (simp add: w_deployed_def)
  have t1: "totalCertificates w_issued = 1" by (simp add: w_issued_def)
  have e: "certificateExists w_issuer_off 0"
    by (simp add: certificateExists_def w_issuer_off_def)
  have r: "world_exec 2 201 (RevokeCertificate 0) w_issuer_off = Inr w_cert_revoked"
    by (simp add: w_cert_revoked_run)
  have 1: "unat (totalCertificates w_issued) = Suc (unat (totalCertificates w_deployed))
           \<and> \<not> certificateExists w_deployed 0 \<and> certificateExists w_issued 0"
    using certificate_ids_sequential[OF w_deployed_reach, of 2 200 sample_hash
        "''QmExample''" 4 "''Bachelor''" 0 w_issued] w_issued_run
    by blast
  have 2: "{i. certificateExists w_issued i} = {i. i < 1}"
    using certificate_ids_sequential[OF w_issued_reach] t1 by simp
  have 3: "certificateExists w_cert_revoked 0"
    using certificate_ids_sequential[OF w_issuer_off_reach, where sender = 2 and now = 201
        and c = "RevokeCertificate 0" and w' = w_cert_revoked] r e
    by blast
  from 1 2 3 t r w_issued_run w_deployed_reach show ?thesis by simp
qed

subsection \<open>C9: revocation is final\<close>

text \<open>
  C9. If a certificate is revoked in a state, then after any successful transaction to the
  registry or to the governance contract it still exists and is still revoked. This holds
  for every state, so for every reachable one; a failed transaction changes nothing.
\<close>

theorem revoked_is_permanent:
  assumes "world_exec sender now c w = Inr w'"
    and "certificateExists w i" and "revoked (certificates w ! unat i)"
  shows "certificateExists w' i \<and> revoked (certificates w' ! unat i)"
proof (cases c)
  case (Governance gc)
  with assms show ?thesis by (auto simp: certificateExists_def split: sum.splits)
next
  case (IssueCertificate h cid hld ctype)
  with assms(1) obtain k where e: "issueCertificate sender now h cid hld ctype w = Inr (k, w')"
    by (auto split: sum.splits)
  from issueCertificate_Inr(9)[OF e] assms(2,3) show ?thesis
    by (simp add: certificateExists_def nth_append)
next
  case (RevokeCertificate k)
  with assms(1) have e: "revokeCertificate sender now k w = Inr w'" by simp
  from revokeCertificate_Inr(1)[OF e] have lt: "unat k < length (certificates w)"
    by (simp add: certificateExists_def)
  from revokeCertificate_Inr(5)[OF e] lt assms(2,3) show ?thesis
    by (auto simp: certificateExists_def nth_list_update)
qed

theorem revoked_is_permanent_witness:
  "world_reachable w_cert_revoked
   \<and> world_exec 1 103 (Governance (TransferSuperAdmin 2)) w_cert_revoked = Inr w_transferred
   \<and> revoked (certificates w_cert_revoked ! unat (0 :: uint256))
   \<and> certificateExists w_transferred 0
   \<and> revoked (certificates w_transferred ! unat (0 :: uint256))"
proof -
  have e: "certificateExists w_cert_revoked 0"
    by (simp add: certificateExists_def w_cert_revoked_def)
  have r: "revoked (certificates w_cert_revoked ! unat (0 :: uint256))"
    by (simp add: w_cert_revoked_def)
  from revoked_is_permanent[OF w_transferred_run e r] w_transferred_run r w_cert_revoked_reach
  show ?thesis by simp
qed

subsection \<open>C10: admin power\<close>

text \<open>
  C10. Only the address stored in \<open>superAdmin\<close> can perform the admin-gated operations.
  For every governance state (so for every reachable one) and every caller \<open>c\<close> other than
  the pointer, each of \<^verbatim>\<open>registerInstitution\<close>, \<^verbatim>\<open>revokeInstitution\<close>,
  \<^verbatim>\<open>reactivateInstitution\<close>, \<^verbatim>\<open>updateInstitutionRole\<close>, \<^verbatim>\<open>setInstitutionStatus\<close> and
  \<^verbatim>\<open>transferSuperAdmin\<close> reverts with ``Only super admin'', whatever its arguments; the
  storage after any such transaction is the storage before it; and \<open>isSuperAdmin c\<close> is
  false. The role field of \<open>c\<close> plays no part: the witness takes a caller whose role is
  \<open>SUPER_ADMIN\<close>.
\<close>

theorem only_pointer_has_admin_power:
  assumes "c \<noteq> superAdmin s"
  shows "registerInstitution c now a nm d w r s = Inl (Revert ''ScholaChain: Only super admin'')
       \<and> revokeInstitution c now a reason s = Inl (Revert ''ScholaChain: Only super admin'')
       \<and> reactivateInstitution c now a s = Inl (Revert ''ScholaChain: Only super admin'')
       \<and> updateInstitutionRole c now a r s = Inl (Revert ''ScholaChain: Only super admin'')
       \<and> setInstitutionStatus c now a b s = Inl (Revert ''ScholaChain: Only super admin'')
       \<and> transferSuperAdmin c now a s = Inl (Revert ''ScholaChain: Only super admin'')
       \<and> gov_after s (gov_exec c now call s) = s
       \<and> \<not> isSuperAdmin s c"
proof -
  have "gov_exec c now call s = Inl (Revert ''ScholaChain: Only super admin'')"
    using assms by (cases call) (simp_all add: gov_ops_defs)
  then have "gov_after s (gov_exec c now call s) = s" by (simp add: gov_after_def)
  then show ?thesis using assms by (simp add: gov_ops_defs isSuperAdmin_def)
qed

theorem only_pointer_has_admin_power_witness:
  "gov_reachable sc_second_admin
   \<and> role (institutions sc_second_admin 3) = SUPER_ADMIN
   \<and> 3 \<noteq> superAdmin sc_second_admin
   \<and> registerInstitution 3 104 5 ''College'' [] [] ISSUER sc_second_admin
        = Inl (Revert ''ScholaChain: Only super admin'')
   \<and> transferSuperAdmin 3 104 3 sc_second_admin
        = Inl (Revert ''ScholaChain: Only super admin'')
   \<and> gov_after sc_second_admin (gov_exec 3 104 (TransferSuperAdmin 3) sc_second_admin)
        = sc_second_admin
   \<and> \<not> isSuperAdmin sc_second_admin 3"
proof -
  have ne: "3 \<noteq> superAdmin sc_second_admin" by (simp add: sc_second_admin_def)
  have r: "role (institutions sc_second_admin 3) = SUPER_ADMIN"
    by (simp add: sc_second_admin_def board_def)
  from only_pointer_has_admin_power[OF ne, where now = 104 and a = 5 and nm = "''College''"
        and d = "[]" and w = "[]" and r = ISSUER and call = "TransferSuperAdmin 3"]
    only_pointer_has_admin_power[OF ne, where now = 104 and a = 3
        and call = "TransferSuperAdmin 3"]
    ne r sc_second_admin_reach
  show ?thesis by simp
qed

end
